theory Spec2Isabelle
  imports Complex_Main
begin

section \<open>Python values, exceptions and the outside world\<close>

text \<open>
  The program is one Python module, \<^verbatim>\<open>app.py\<close>: a Streamlit page that reads a CSV
  file of support tickets, checks its header, turns every row into a JSON payload and
  posts the payloads one by one to an endpoint, pausing a random time between two posts.

  Everything the module does to the outside world is recorded as an \<open>event\<close> in a trace,
  in the order the calls happen. What the outside world answers (the reply to an HTTP
  request, a draw of the random generator) is a parameter of the model, the \<open>env\<close>.
  A Python exception that leaves a function is a value of \<open>py_error\<close>.
\<close>

datatype py_error =
    KeyError string
  | TypeError
  | ZeroDivisionError
  | ValueError
  | OtherException string

text \<open>
  A cell of a data frame row. \<open>pd.read_csv\<close> yields text, integers, booleans, floats and
  the missing-value marker. A finite float is carried as the text \<open>str\<close> gives for it:
  float arithmetic on cells is never done by the module.
\<close>

datatype cell =
    CStr string
  | CInt int
  | CBool bool
  | CFloat string
  | CNaN

text \<open>
  A data frame: the column labels and the rows, each row holding one cell per column.
  \<open>pd.read_csv\<close> renames repeated header names, so the labels of a frame it returns are
  distinct; \<open>wf_df\<close> states both facts.
\<close>

record dataframe =
  columns :: "string list"
  rows :: "cell list list"

definition wf_df :: "dataframe \<Rightarrow> bool" where
  "wf_df df \<longleftrightarrow>
     distinct (columns df) \<and> list_all (\<lambda>r. length r = length (columns df)) (rows df)"

text \<open>A JSON value as the payload uses it: a string or an object (a Python \<open>dict\<close>,
  which keeps the order its keys were inserted in).\<close>

datatype json =
    JStr string
  | JObj "(string \<times> json) list"

text \<open>The arguments of one call \<open>requests.post(endpoint, json=payload, timeout=10,
  headers={'Content-Type': 'application/json'})\<close>.\<close>

record request =
  url :: string
  json_body :: json
  timeout :: nat
  headers :: "(string \<times> string) list"

text \<open>
  What \<open>requests.post\<close> does with a request: it returns a response (status code and
  text), raises an exception of class \<open>requests.exceptions.RequestException\<close> (connection
  refused, timeout, DNS or TLS failure, ...; carried with its \<open>str\<close>), or raises an
  exception of another class.
\<close>

datatype post_result =
    Responded int string
  | RaisedRequestException string
  | RaisedOther string

text \<open>
  The outside world: \<open>net_reply env k req\<close> is the outcome of the \<open>k\<close>-th call of
  \<open>requests.post\<close> (counted from 0) when it is made with \<open>req\<close>; \<open>rand_draw env k\<close> is
  the \<open>k\<close>-th value of \<open>random.random()\<close>, a number in \<open>[0, 1)\<close>;
  \<open>float_str_beyond env i\<close> is the text \<open>str\<close> gives for the float nearest to an integer
  \<open>i\<close> of magnitude above \<open>2 ^ 53\<close>, where the conversion to a float rounds (the host's
  floating-point arithmetic is not modelled).
\<close>

record env =
  net_reply :: "nat \<Rightarrow> request \<Rightarrow> post_result"
  rand_draw :: "nat \<Rightarrow> real"
  float_str_beyond :: "int \<Rightarrow> string"

text \<open>
  The calls that reach the outside world, one constructor per call site of the module.
  A message built by an f-string is carried as the values the f-string interpolates.
\<close>

datatype event =
    ProgressBar real
  | StatusSending nat nat
  | StatusCompleted
  | PayloadShown json json
  | HttpPost request
  | TicketSuccess json int
  | TicketError json string
  | Sleep real
  | SummaryHeader
  | MetricSuccessful nat
  | MetricFailed nat
  | MetricRate real
  | Balloons
  | AllSent
  | CompletedWithErrors nat
  | MissingColumnsError string
  | RequiredColumnsInfo
  | ValidCsvLoaded nat
  | Preview
  | MetricTotal nat
  | MetricUnique string
  | EndpointWarning
  | ProcessingError py_error

section \<open>Python built-ins the module uses\<close>

text \<open>\<open>str\<close> of an integer: decimal digits, with a minus sign for a negative one.\<close>

fun str_nat :: "nat \<Rightarrow> string" where
  "str_nat n =
     (if n < 10 then [''0123456789'' ! n]
      else str_nat (n div 10) @ [''0123456789'' ! (n mod 10)])"

declare str_nat.simps [simp del]

definition str_int :: "int \<Rightarrow> string" where
  "str_int i = (if i < 0 then CHR ''-'' # str_nat (nat (- i)) else str_nat (nat i))"

text \<open>\<open>str(v)\<close> for the value \<open>v\<close> of a cell. Text is returned as it is, byte for byte.\<close>

fun py_str :: "cell \<Rightarrow> string" where
  "py_str (CStr s) = s"
| "py_str (CInt i) = str_int i"
| "py_str (CBool b) = (if b then ''True'' else ''False'')"
| "py_str (CFloat s) = s"
| "py_str CNaN = ''nan''"

text \<open>\<open>sep.join(xs)\<close>.\<close>

fun py_join :: "string \<Rightarrow> string list \<Rightarrow> string" where
  "py_join sep [] = []"
| "py_join sep [x] = x"
| "py_join sep (x # y # ys) = x @ sep @ py_join sep (y # ys)"

text \<open>\<open>row[c]\<close> for a row of a frame with labels \<open>cols\<close>: \<open>KeyError\<close> when there is no
  such label.\<close>

definition row_get :: "string list \<Rightarrow> cell list \<Rightarrow> string \<Rightarrow> py_error + cell" where
  "row_get cols row c =
     (case map_of (zip cols row) c of
        None \<Rightarrow> Inl (KeyError c)
      | Some v \<Rightarrow> Inr v)"

text \<open>\<open>d[k]\<close> for a payload value \<open>d\<close>: \<open>KeyError\<close> when the dict has no such key,
  \<open>TypeError\<close> when \<open>d\<close> is a string.\<close>

fun dict_get :: "json \<Rightarrow> string \<Rightarrow> py_error + json" where
  "dict_get (JObj kvs) k =
     (case map_of kvs k of
        None \<Rightarrow> Inl (KeyError k)
      | Some v \<Rightarrow> Inr v)"
| "dict_get (JStr s) k = Inl TypeError"

text \<open>\<open>d[k1][k2]...\<close>: reading a field of a payload back along a path of keys.\<close>

fun dict_path :: "json \<Rightarrow> string list \<Rightarrow> py_error + json" where
  "dict_path d [] = Inr d"
| "dict_path d (k # ks) =
     (case dict_get d k of
        Inl e \<Rightarrow> Inl e
      | Inr v \<Rightarrow> dict_path v ks)"

text \<open>\<open>random.uniform(a, b)\<close> is \<open>a + (b - a) * random()\<close>. Durations are real numbers
  here; the rounding of floating-point arithmetic is not modelled.\<close>

definition uniform :: "real \<Rightarrow> real \<Rightarrow> real \<Rightarrow> real" where
  "uniform a b r = a + (b - a) * r"

section \<open>What pandas does: column dtypes and \<open>iterrows\<close>\<close>

text \<open>
  \<open>df.iterrows()\<close> yields each row as a Series built from a row of \<open>df.values\<close>, the
  frame as one array of a single dtype. So a row does not always hold the cells as the
  columns hold them: when the columns are numeric of different dtypes, the integers of
  the row arrive as floats.

  The dtype of a column, as \<open>pd.read_csv\<close> infers it: \<open>int64\<close> for integers of the
  signed 64-bit range, \<open>uint64\<close> for non-negative integers below \<open>2 ^ 64\<close> not all of
  that range, \<open>float64\<close> for floats and missing values, \<open>bool\<close> for booleans, and
  \<open>object\<close> for anything else (text, or cells of different kinds).
\<close>

datatype dtype = Int64 | UInt64 | Float64 | Bool | Object

fun int_cell :: "cell \<Rightarrow> int option" where
  "int_cell (CInt i) = Some i"
| "int_cell c = None"

fun is_float_cell :: "cell \<Rightarrow> bool" where
  "is_float_cell (CFloat s) = True"
| "is_float_cell CNaN = True"
| "is_float_cell c = False"

fun is_bool_cell :: "cell \<Rightarrow> bool" where
  "is_bool_cell (CBool b) = True"
| "is_bool_cell c = False"

definition in_int64 :: "cell \<Rightarrow> bool" where
  "in_int64 c = (case int_cell c of None \<Rightarrow> False | Some i \<Rightarrow> - (2 ^ 63) \<le> i \<and> i < 2 ^ 63)"

definition in_uint64 :: "cell \<Rightarrow> bool" where
  "in_uint64 c = (case int_cell c of None \<Rightarrow> False | Some i \<Rightarrow> 0 \<le> i \<and> i < 2 ^ 64)"

definition column_dtype :: "cell list \<Rightarrow> dtype" where
  "column_dtype cells =
     (if list_all in_int64 cells then Int64
      else if list_all in_uint64 cells then UInt64
      else if list_all is_float_cell cells then Float64
      else if list_all is_bool_cell cells then Bool
      else Object)"

text \<open>The cells of the column at position \<open>j\<close>, and the dtypes of the columns of a frame.\<close>

definition column_cells :: "nat \<Rightarrow> cell list list \<Rightarrow> cell list" where
  "column_cells j rs = concat (map (\<lambda>r. take 1 (drop j r)) rs)"

definition dtypes :: "dataframe \<Rightarrow> dtype list" where
  "dtypes df = map (\<lambda>j. column_dtype (column_cells j (rows df))) [0..<length (columns df)]"

text \<open>
  The dtype of \<open>df.values\<close> (pandas' \<open>find_common_type\<close>): the columns' dtype when they
  all have the same; \<open>object\<close> when a column is \<open>object\<close>, or when \<open>bool\<close> meets a numeric
  dtype; \<open>float64\<close> for any other mix of \<open>int64\<close>, \<open>uint64\<close> and \<open>float64\<close>.
\<close>

definition common_dtype :: "dtype list \<Rightarrow> dtype" where
  "common_dtype ds =
     (case ds of
        [] \<Rightarrow> Object
      | d # rest \<Rightarrow>
          if list_all (\<lambda>d'. d' = d) rest then d
          else if Object \<in> set ds \<or> Bool \<in> set ds then Object
          else Float64)"

text \<open>
  A cell as an element of an array of dtype \<open>t\<close>. Only the cast of an integer to
  \<open>float64\<close> changes what \<open>str\<close> gives: an integer of magnitude up to \<open>2 ^ 53\<close> is a float
  exactly, printed with its digits and \<open>.0\<close>; a larger one is rounded, and its text is
  the host's (\<open>beyond\<close>).
\<close>

definition int_as_float_str :: "(int \<Rightarrow> string) \<Rightarrow> int \<Rightarrow> string" where
  "int_as_float_str beyond i = (if \<bar>i\<bar> \<le> 2 ^ 53 then str_int i @ ''.0'' else beyond i)"

fun as_dtype :: "(int \<Rightarrow> string) \<Rightarrow> dtype \<Rightarrow> cell \<Rightarrow> cell" where
  "as_dtype beyond Float64 (CInt i) = CFloat (int_as_float_str beyond i)"
| "as_dtype beyond t c = c"

text \<open>The rows \<open>df.iterrows()\<close> yields, in order; each is indexed by \<open>df.columns\<close>.\<close>

definition iterrows :: "(int \<Rightarrow> string) \<Rightarrow> dataframe \<Rightarrow> cell list list" where
  "iterrows beyond df = map (map (as_dtype beyond (common_dtype (dtypes df)))) (rows df)"

section \<open>Record Validator: \<open>validate_csv_structure\<close>\<close>

definition required_columns :: "string list" where
  "required_columns =
     [''id'', ''channel'', ''customer_name'', ''subject'', ''fullMessage'', ''sentiment_name'']"

text \<open>Returns the boolean and the messages it shows (\<open>st.error\<close> with the missing names
  joined by \<open>', '\<close>, then \<open>st.info\<close>).\<close>

definition validate_csv_structure :: "dataframe \<Rightarrow> bool \<times> event list" where
  "validate_csv_structure df =
     (let missing_columns = filter (\<lambda>col. col \<notin> set (columns df)) required_columns
      in if missing_columns \<noteq> []
         then (False, [MissingColumnsError (py_join '', '' missing_columns), RequiredColumnsInfo])
         else (True, []))"

section \<open>Payload Builder: \<open>create_ticket_payload\<close>\<close>

text \<open>The dict literal evaluates its values from top to bottom, so the first label that
  is missing raises.\<close>

definition create_ticket_payload :: "string list \<Rightarrow> cell list \<Rightarrow> py_error + json" where
  "create_ticket_payload cols row =
     (case row_get cols row ''id'' of Inl e \<Rightarrow> Inl e | Inr v_id \<Rightarrow>
     (case row_get cols row ''channel'' of Inl e \<Rightarrow> Inl e | Inr v_channel \<Rightarrow>
     (case row_get cols row ''customer_name'' of Inl e \<Rightarrow> Inl e | Inr v_customer \<Rightarrow>
     (case row_get cols row ''subject'' of Inl e \<Rightarrow> Inl e | Inr v_subject \<Rightarrow>
     (case row_get cols row ''fullMessage'' of Inl e \<Rightarrow> Inl e | Inr v_message \<Rightarrow>
     (case row_get cols row ''sentiment_name'' of Inl e \<Rightarrow> Inl e | Inr v_sentiment \<Rightarrow>
      Inr (JObj
        [(''external_id'', JStr (py_str v_id)),
         (''source_channel'', JStr (py_str v_channel)),
         (''customer'', JObj [(''name'', JStr (py_str v_customer))]),
         (''content'', JObj
            [(''subject'', JStr (py_str v_subject)),
             (''body'', JStr (py_str v_message))]),
         (''ai_analysis'', JObj [(''sentiment'', JStr (py_str v_sentiment))])])))))))"

section \<open>Delivery Client: \<open>send_ticket\<close>\<close>

text \<open>
  One call of \<open>requests.post\<close>, whose outcome is \<open>reply\<close> applied to the request. The
  \<open>except\<close> clause catches \<open>RequestException\<close> only: an exception of another class leaves
  the function. Returns what the function returns or raises, and the call it made.
\<close>

definition post_request :: "string \<Rightarrow> json \<Rightarrow> request" where
  "post_request endpoint payload =
     \<lparr>url = endpoint, json_body = payload, timeout = 10,
      headers = [(''Content-Type'', ''application/json'')]\<rparr>"

definition send_ticket ::
  "(request \<Rightarrow> post_result) \<Rightarrow> json \<Rightarrow> string \<Rightarrow> (py_error + bool \<times> int \<times> string) \<times> event list"
where
  "send_ticket reply payload endpoint =
     (let req = post_request endpoint payload
      in (case reply req of
            Responded status_code text \<Rightarrow> Inr (True, status_code, text)
          | RaisedRequestException e \<Rightarrow> Inr (False, 0, e)
          | RaisedOther e \<Rightarrow> Inl (OtherException e),
          [HttpPost req]))"

section \<open>Dispatch Engine: \<open>send_tickets_process\<close>\<close>

text \<open>The local counters of the function and the trace of the calls made so far.\<close>

record run_state =
  successful_sends :: nat
  failed_sends :: nat
  trace :: "event list"

definition emit :: "event list \<Rightarrow> run_state \<Rightarrow> run_state" where
  "emit evs s = s\<lparr>trace := trace s @ evs\<rparr>"

text \<open>
  The end of the loop body, "Delay between sends": no pause after the last ticket.
  \<open>i < total_tickets - 1\<close> compares Python integers; an iteration that pauses is the
  \<open>i\<close>-th to do so, so it takes the \<open>i\<close>-th draw of the random generator;
  \<open>time.sleep\<close> raises \<open>ValueError\<close> for a negative duration.
\<close>

definition delay_between_sends ::
  "env \<Rightarrow> real \<Rightarrow> real \<Rightarrow> nat \<Rightarrow> nat \<Rightarrow> run_state \<Rightarrow> py_error option \<times> run_state"
where
  "delay_between_sends world delay_min delay_max total_tickets i s =
     (if int i < int total_tickets - 1
      then
        let delay = uniform delay_min delay_max (rand_draw world i)
        in if delay < 0 then (Some ValueError, s)
           else (None, emit [Sleep delay] s)
      else (None, s))"

text \<open>
  The body of the \<open>for\<close> loop for the row at position \<open>i\<close>. The result is the exception
  that left the body, if one did, and the state reached.
  \<^item> \<open>(i + 1) / total_tickets\<close> raises \<open>ZeroDivisionError\<close> for a zero divisor;
  \<^item> \<open>payload['external_id']\<close> is read three times from a payload that is never
    changed, so it is read once here;
  \<^item> the \<open>i\<close>-th iteration makes the \<open>i\<close>-th call of \<open>requests.post\<close>.
\<close>

definition loop_body ::
  "env \<Rightarrow> string list \<Rightarrow> string \<Rightarrow> real \<Rightarrow> real \<Rightarrow> nat \<Rightarrow> nat \<Rightarrow> cell list \<Rightarrow> run_state
     \<Rightarrow> py_error option \<times> run_state"
where
  "loop_body world cols endpoint delay_min delay_max total_tickets i row s =
     (if total_tickets = 0 then (Some ZeroDivisionError, s)
      else
        let progress = real (i + 1) / real total_tickets;
            s1 = emit [ProgressBar progress, StatusSending (i + 1) total_tickets] s
        in (case create_ticket_payload cols row of
              Inl e \<Rightarrow> (Some e, s1)
            | Inr payload \<Rightarrow>
           (case dict_get payload ''external_id'' of
              Inl e \<Rightarrow> (Some e, s1)
            | Inr external_id \<Rightarrow>
           (let s2 = emit [PayloadShown external_id payload] s1;
                (result, calls) = send_ticket (net_reply world i) payload endpoint;
                s3 = emit calls s2
            in (case result of
                  Inl e \<Rightarrow> (Some e, s3)
                | Inr (success, status_code, response_text) \<Rightarrow>
               (let s4 = (if success
                          then emit [TicketSuccess external_id status_code]
                                 (s3\<lparr>successful_sends := successful_sends s3 + 1\<rparr>)
                          else emit [TicketError external_id response_text]
                                 (s3\<lparr>failed_sends := failed_sends s3 + 1\<rparr>))
                in delay_between_sends world delay_min delay_max total_tickets i s4))))))"

text \<open>The \<open>for\<close> loop over \<open>enumerate(df.iterrows())\<close>, from position \<open>i\<close> on: an
  exception in one iteration ends the loop.\<close>

fun send_loop ::
  "env \<Rightarrow> string list \<Rightarrow> string \<Rightarrow> real \<Rightarrow> real \<Rightarrow> nat \<Rightarrow> nat \<Rightarrow> cell list list \<Rightarrow> run_state
     \<Rightarrow> py_error option \<times> run_state"
where
  "send_loop world cols endpoint delay_min delay_max total_tickets i [] s = (None, s)"
| "send_loop world cols endpoint delay_min delay_max total_tickets i (row # rest) s =
     (case loop_body world cols endpoint delay_min delay_max total_tickets i row s of
        (Some e, s') \<Rightarrow> (Some e, s')
      | (None, s') \<Rightarrow>
          send_loop world cols endpoint delay_min delay_max total_tickets (Suc i) rest s')"

text \<open>The rate shown in the summary: \<open>(successful_sends / total_tickets) * 100 if
  total_tickets > 0 else 0\<close>, as a real number (its formatting to one decimal is not
  modelled).\<close>

definition success_rate :: "nat \<Rightarrow> nat \<Rightarrow> real" where
  "success_rate successful total_tickets =
     (if total_tickets > 0 then (real successful / real total_tickets) * 100 else 0)"

text \<open>The summary after the loop, and the closing message.\<close>

definition final_summary :: "nat \<Rightarrow> run_state \<Rightarrow> run_state" where
  "final_summary total_tickets s =
     (let s1 = emit [ProgressBar 1, StatusCompleted, SummaryHeader,
                     MetricSuccessful (successful_sends s),
                     MetricFailed (failed_sends s),
                     MetricRate (success_rate (successful_sends s) total_tickets)] s
      in if successful_sends s = total_tickets then emit [Balloons, AllSent] s1
         else if failed_sends s > 0 then emit [CompletedWithErrors (failed_sends s)] s1
         else s1)"

text \<open>The whole function. \<open>st.progress(0)\<close> draws the bar; \<open>st.empty()\<close> and
  \<open>st.container()\<close> only reserve places on the page. \<open>total_tickets\<close> is \<open>len(df)\<close>; the
  loop runs over the rows as \<open>df.iterrows()\<close> yields them.\<close>

definition send_tickets_process ::
  "env \<Rightarrow> dataframe \<Rightarrow> string \<Rightarrow> real \<Rightarrow> real \<Rightarrow> py_error option \<times> run_state"
where
  "send_tickets_process world df endpoint delay_min delay_max =
     (let total_tickets = length (rows df);
          s0 = \<lparr>successful_sends = 0, failed_sends = 0, trace = [ProgressBar 0]\<rparr>
      in case send_loop world (columns df) endpoint delay_min delay_max total_tickets 0
                (iterrows (float_str_beyond world) df) s0 of
           (Some e, s) \<Rightarrow> (Some e, s)
         | (None, s) \<Rightarrow> (None, final_summary total_tickets s))"

section \<open>The page: \<open>main\<close>\<close>

text \<open>
  The inputs of \<open>main\<close> are what the widgets return: \<open>csv_file\<close> is \<open>None\<close> when no file
  is uploaded, otherwise what \<open>pd.read_csv\<close> does with the file (a frame, or an
  exception); \<open>endpoint\<close> is the text of the URL field; \<open>button\<close> tells whether the send
  button was pressed; the two delays are the sliders' values. The result is the trace of
  the page. The fixed page furniture (title, help text, widget labels) is left out.
  Every exception raised inside the \<open>try\<close> block is caught and shown by \<open>st.error\<close>.
  The two \<open>nunique()\<close> metrics read a column, which raises \<open>KeyError\<close> when the column is
  missing; the number they show is not modelled.
\<close>

definition main ::
  "env \<Rightarrow> (py_error + dataframe) option \<Rightarrow> string \<Rightarrow> bool \<Rightarrow> real \<Rightarrow> real \<Rightarrow> event list"
where
  "main world csv_file endpoint button delay_min delay_max =
     (case csv_file of
        None \<Rightarrow> []
      | Some (Inl e) \<Rightarrow> [ProcessingError e]
      | Some (Inr df) \<Rightarrow>
          (case validate_csv_structure df of
             (False, msgs) \<Rightarrow> msgs
           | (True, msgs) \<Rightarrow>
               let t1 = msgs @ [ValidCsvLoaded (length (rows df)), Preview,
                                MetricTotal (length (rows df))]
               in if ''channel'' \<notin> set (columns df)
                  then t1 @ [ProcessingError (KeyError ''channel'')]
                  else
               let t2 = t1 @ [MetricUnique ''channel'']
               in if ''customer_name'' \<notin> set (columns df)
                  then t2 @ [ProcessingError (KeyError ''customer_name'')]
                  else
               let t3 = t2 @ [MetricUnique ''customer_name'']
               in if endpoint \<noteq> []
                  then
                    if button
                    then
                      (case send_tickets_process world df endpoint delay_min delay_max of
                         (Some e, s) \<Rightarrow> t3 @ trace s @ [ProcessingError e]
                       | (None, s) \<Rightarrow> t3 @ trace s)
                    else t3
                  else t3 @ [EndpointWarning]))"

text \<open>The delivery attempts of a trace, the progress reports and the pauses, in order.\<close>

fun posted_payloads :: "event list \<Rightarrow> json list" where
  "posted_payloads [] = []"
| "posted_payloads (HttpPost req # evs) = json_body req # posted_payloads evs"
| "posted_payloads (ev # evs) = posted_payloads evs"

fun progress_reports :: "event list \<Rightarrow> (nat \<times> nat) list" where
  "progress_reports [] = []"
| "progress_reports (StatusSending done total_tickets # evs) =
     (done, total_tickets) # progress_reports evs"
| "progress_reports (ev # evs) = progress_reports evs"

fun sleeps :: "event list \<Rightarrow> real list" where
  "sleeps [] = []"
| "sleeps (Sleep d # evs) = d # sleeps evs"
| "sleeps (ev # evs) = sleeps evs"

text \<open>The values the progress bar is set to, in order.\<close>

fun bar_updates :: "event list \<Rightarrow> real list" where
  "bar_updates [] = []"
| "bar_updates (ProgressBar v # evs) = v # bar_updates evs"
| "bar_updates (ev # evs) = bar_updates evs"

text \<open>The per-ticket result messages of a trace, in order.\<close>

fun item_results :: "event list \<Rightarrow> event list" where
  "item_results [] = []"
| "item_results (TicketSuccess x status_code # evs) =
     TicketSuccess x status_code # item_results evs"
| "item_results (TicketError x response_text # evs) =
     TicketError x response_text # item_results evs"
| "item_results (ev # evs) = item_results evs"

text \<open>What a trace holds after its last delivery attempt (the whole trace when it has
  none).\<close>

fun is_post :: "event \<Rightarrow> bool" where
  "is_post (HttpPost req) = True"
| "is_post ev = False"

definition since_last_post :: "event list \<Rightarrow> event list" where
  "since_last_post evs = rev (takeWhile (\<lambda>ev. \<not> is_post ev) (rev evs))"

text \<open>The place of the first occurrence of an event in a trace.\<close>

definition position :: "event \<Rightarrow> event list \<Rightarrow> nat" where
  "position ev evs = length (takeWhile (\<lambda>e. e \<noteq> ev) evs)"

text \<open>
  The standing assumptions on the outside world: \<open>requests.post\<close> raises no exception
  outside the \<open>RequestException\<close> hierarchy, and \<open>random.random()\<close> returns numbers of
  \<open>[0, 1)\<close>.
\<close>

definition only_request_exceptions :: "env \<Rightarrow> bool" where
  "only_request_exceptions world \<longleftrightarrow> (\<forall>k req e. net_reply world k req \<noteq> RaisedOther e)"

definition unit_draws :: "env \<Rightarrow> bool" where
  "unit_draws world \<longleftrightarrow> (\<forall>k. 0 \<le> rand_draw world k \<and> rand_draw world k < 1)"

subsection \<open>Concrete inputs\<close>

text \<open>A frame of three tickets (the second with non-ASCII text, as UTF-8 bytes, a
  numeric id and a missing subject; the third with a negative id, a boolean and a float),
  a frame without the \<open>subject\<close> column, an empty frame, and an endpoint that answers 500
  to the first request, 200 to the second and is unreachable after.\<close>

definition demo_columns :: "string list" where
  "demo_columns =
     [''id'', ''channel'', ''customer_name'', ''subject'', ''fullMessage'', ''sentiment_name'']"

definition demo_row1 :: "cell list" where
  "demo_row1 = [CStr ''T-1'', CStr ''email'', CStr ''Ana'', CStr ''Login'',
                CStr ''Cannot log in'', CStr ''negative'']"

definition demo_row2 :: "cell list" where
  "demo_row2 = [CInt 42, CStr ''chat'', CStr [CHR ''J'', CHR ''o'', CHR ''s'', CHR 0xC3, CHR 0xA9],
                CNaN, CStr ''Thanks'', CStr ''positive'']"

definition demo_row3 :: "cell list" where
  "demo_row3 = [CInt (- 7), CStr ''phone'', CBool True, CFloat ''1.5'', CStr ''Hello'',
                CStr ''neutral'']"

definition demo_df :: dataframe where
  "demo_df = \<lparr>columns = demo_columns, rows = [demo_row1, demo_row2, demo_row3]\<rparr>"

definition demo_df_no_subject :: dataframe where
  "demo_df_no_subject =
     \<lparr>columns = [''id'', ''channel'', ''customer_name'', ''fullMessage'', ''sentiment_name''],
      rows = [[CStr ''T-1'', CStr ''email'', CStr ''Ana'', CStr ''Cannot log in'', CStr ''negative'']]\<rparr>"

definition demo_df_empty :: dataframe where
  "demo_df_empty = \<lparr>columns = demo_columns, rows = []\<rparr>"

definition demo_reply :: "nat \<Rightarrow> request \<Rightarrow> post_result" where
  "demo_reply k req =
     (if k = 0 then Responded 500 ''Internal Server Error''
      else if k = 1 then Responded 200 ''ok''
      else RaisedRequestException ''Connection refused'')"

text \<open>The integers of the frames below are small: \<open>float_str_beyond\<close> is never asked.\<close>

definition demo_float_str :: "int \<Rightarrow> string" where
  "demo_float_str i = ''1e+16''"

definition demo_draw :: "nat \<Rightarrow> real" where
  "demo_draw k = 1 / 2"

definition demo_world :: env where
  "demo_world =
     \<lparr>net_reply = demo_reply, rand_draw = demo_draw, float_str_beyond = demo_float_str\<rparr>"

text \<open>An endpoint whose URL \<open>requests.post\<close> cannot parse: the call raises an exception
  that is not a \<open>RequestException\<close>.\<close>

definition demo_reply_unparsable :: "nat \<Rightarrow> request \<Rightarrow> post_result" where
  "demo_reply_unparsable k req =
     (if url req = ''http://a..b'' then RaisedOther ''LocationParseError''
      else Responded 200 ''ok'')"

definition demo_world_unparsable :: env where
  "demo_world_unparsable =
     \<lparr>net_reply = demo_reply_unparsable, rand_draw = demo_draw,
      float_str_beyond = demo_float_str\<rparr>"

text \<open>A frame whose columns are all numeric, one of them of floats: the row that
  \<open>iterrows\<close> yields holds floats only.\<close>

definition demo_df_numeric :: dataframe where
  "demo_df_numeric =
     \<lparr>columns = demo_columns,
      rows = [[CInt 42, CInt 1, CInt 2, CInt 3, CFloat ''4.5'', CInt 5]]\<rparr>"

definition demo_payload_numeric :: json where
  "demo_payload_numeric =
     JObj [(''external_id'', JStr ''42.0''),
           (''source_channel'', JStr ''1.0''),
           (''customer'', JObj [(''name'', JStr ''2.0'')]),
           (''content'', JObj [(''subject'', JStr ''3.0''), (''body'', JStr ''4.5'')]),
           (''ai_analysis'', JObj [(''sentiment'', JStr ''5.0'')])]"

definition demo_payload1 :: json where
  "demo_payload1 =
     JObj [(''external_id'', JStr ''T-1''),
           (''source_channel'', JStr ''email''),
           (''customer'', JObj [(''name'', JStr ''Ana'')]),
           (''content'', JObj [(''subject'', JStr ''Login''), (''body'', JStr ''Cannot log in'')]),
           (''ai_analysis'', JObj [(''sentiment'', JStr ''negative'')])]"

definition demo_payload2 :: json where
  "demo_payload2 =
     JObj [(''external_id'', JStr ''42''),
           (''source_channel'', JStr ''chat''),
           (''customer'', JObj [(''name'', JStr [CHR ''J'', CHR ''o'', CHR ''s'', CHR 0xC3, CHR 0xA9])]),
           (''content'', JObj [(''subject'', JStr ''nan''), (''body'', JStr ''Thanks'')]),
           (''ai_analysis'', JObj [(''sentiment'', JStr ''positive'')])]"

definition demo_payload3 :: json where
  "demo_payload3 =
     JObj [(''external_id'', JStr ''-7''),
           (''source_channel'', JStr ''phone''),
           (''customer'', JObj [(''name'', JStr ''True'')]),
           (''content'', JObj [(''subject'', JStr ''1.5''), (''body'', JStr ''Hello'')]),
           (''ai_analysis'', JObj [(''sentiment'', JStr ''neutral'')])]"

definition demo_start :: run_state where
  "demo_start = \<lparr>successful_sends = 0, failed_sends = 0, trace = [ProgressBar 0]\<rparr>"


section \<open>Auxiliary facts\<close>

lemma length_iterrows: "length (iterrows beyond df) = length (rows df)"
  by (simp add: iterrows_def)

lemma iterrows_Nil: "rows df = [] \<Longrightarrow> iterrows beyond df = []"
  by (simp add: iterrows_def)

lemma iterrows_lengths:
  "list_all (\<lambda>r. length r = n) (rows df) \<Longrightarrow> list_all (\<lambda>r. length r = n) (iterrows beyond df)"
  by (simp add: iterrows_def list_all_iff)

lemma as_dtype_unchanged: "t \<noteq> Float64 \<Longrightarrow> as_dtype beyond t c = c"
  by (cases t) simp_all

lemma iterrows_unchanged:
  assumes "common_dtype (dtypes df) \<noteq> Float64"
  shows "iterrows beyond df = rows df"
proof -
  have "as_dtype beyond (common_dtype (dtypes df)) = (\<lambda>c. c)"
    using assms by (intro ext) (rule as_dtype_unchanged)
  then show ?thesis by (simp add: iterrows_def)
qed

lemma row_get_present:
  "c \<in> set cols \<Longrightarrow> length row = length cols \<Longrightarrow> \<exists>v. row_get cols row c = Inr v"
proof -
  assume c: "c \<in> set cols" and len: "length row = length cols"
  from len have "(map_of (zip cols row) c = None) = (c \<notin> set cols)"
    by simp
  with c obtain v where "map_of (zip cols row) c = Some v" by auto
  then show ?thesis by (simp add: row_get_def)
qed

lemma create_ticket_payload_total:
  assumes "set required_columns \<subseteq> set cols" and "length row = length cols"
  shows "\<exists>p. create_ticket_payload cols row = Inr p"
proof -
  have m: "\<And>c. c \<in> set required_columns \<Longrightarrow> \<exists>v. row_get cols row c = Inr v"
    using assms by (auto intro: row_get_present)
  obtain v1 where "row_get cols row ''id'' = Inr v1"
    using m [of "''id''"] by (auto simp: required_columns_def)
  moreover obtain v2 where "row_get cols row ''channel'' = Inr v2"
    using m [of "''channel''"] by (auto simp: required_columns_def)
  moreover obtain v3 where "row_get cols row ''customer_name'' = Inr v3"
    using m [of "''customer_name''"] by (auto simp: required_columns_def)
  moreover obtain v4 where "row_get cols row ''subject'' = Inr v4"
    using m [of "''subject''"] by (auto simp: required_columns_def)
  moreover obtain v5 where "row_get cols row ''fullMessage'' = Inr v5"
    using m [of "''fullMessage''"] by (auto simp: required_columns_def)
  moreover obtain v6 where "row_get cols row ''sentiment_name'' = Inr v6"
    using m [of "''sentiment_name''"] by (auto simp: required_columns_def)
  ultimately show ?thesis by (simp add: create_ticket_payload_def)
qed

lemma create_ticket_payload_Inr:
  assumes "create_ticket_payload cols row = Inr p"
  shows "\<exists>v1 v2 v3 v4 v5 v6.
    row_get cols row ''id'' = Inr v1 \<and>
    row_get cols row ''channel'' = Inr v2 \<and>
    row_get cols row ''customer_name'' = Inr v3 \<and>
    row_get cols row ''subject'' = Inr v4 \<and>
    row_get cols row ''fullMessage'' = Inr v5 \<and>
    row_get cols row ''sentiment_name'' = Inr v6 \<and>
    p = JObj
        [(''external_id'', JStr (py_str v1)),
         (''source_channel'', JStr (py_str v2)),
         (''customer'', JObj [(''name'', JStr (py_str v3))]),
         (''content'', JObj
            [(''subject'', JStr (py_str v4)),
             (''body'', JStr (py_str v5))]),
         (''ai_analysis'', JObj [(''sentiment'', JStr (py_str v6))])]"
  using assms unfolding create_ticket_payload_def
  by (simp split: sum.splits)

lemma payload_external_id:
  assumes "create_ticket_payload cols row = Inr p"
  shows "\<exists>v. row_get cols row ''id'' = Inr v \<and> dict_get p ''external_id'' = Inr (JStr (py_str v))"
  using create_ticket_payload_Inr [OF assms] by auto

lemma validate_ok_iff:
  "fst (validate_csv_structure df) \<longleftrightarrow> set required_columns \<subseteq> set (columns df)"
  by (auto simp: validate_csv_structure_def Let_def filter_empty_conv)

lemma posted_payloads_append:
  "posted_payloads (xs @ ys) = posted_payloads xs @ posted_payloads ys"
  by (induction xs rule: posted_payloads.induct) simp_all

lemma progress_reports_append:
  "progress_reports (xs @ ys) = progress_reports xs @ progress_reports ys"
  by (induction xs rule: progress_reports.induct) simp_all

lemma sleeps_append: "sleeps (xs @ ys) = sleeps xs @ sleeps ys"
  by (induction xs rule: sleeps.induct) simp_all

lemma bar_updates_append: "bar_updates (xs @ ys) = bar_updates xs @ bar_updates ys"
  by (induction xs rule: bar_updates.induct) simp_all

lemma loop_body_built:
  assumes "n \<noteq> 0" and "create_ticket_payload cols row = Inr p"
    and "dict_get p ''external_id'' = Inr x"
  shows "loop_body w cols ep dmin dmax n i row s =
    (case net_reply w i (post_request ep p) of
       Responded code text \<Rightarrow>
         delay_between_sends w dmin dmax n i
           (s\<lparr>successful_sends := successful_sends s + 1,
              trace := trace s @ [ProgressBar (real (i + 1) / real n),
                StatusSending (i + 1) n, PayloadShown x p,
                HttpPost (post_request ep p), TicketSuccess x code]\<rparr>)
     | RaisedRequestException e \<Rightarrow>
         delay_between_sends w dmin dmax n i
           (s\<lparr>failed_sends := failed_sends s + 1,
              trace := trace s @ [ProgressBar (real (i + 1) / real n),
                StatusSending (i + 1) n, PayloadShown x p,
                HttpPost (post_request ep p), TicketError x e]\<rparr>)
     | RaisedOther e \<Rightarrow>
         (Some (OtherException e),
          s\<lparr>trace := trace s @ [ProgressBar (real (i + 1) / real n),
                StatusSending (i + 1) n, PayloadShown x p,
                HttpPost (post_request ep p)]\<rparr>))"
  using assms
  by (simp add: loop_body_def send_ticket_def emit_def Let_def split: post_result.splits)

lemma loop_body_counts:
  "loop_body w cols ep dmin dmax n i row s = (None, s') \<Longrightarrow>
   successful_sends s' + failed_sends s' = successful_sends s + failed_sends s + 1"
  by (auto simp: loop_body_def send_ticket_def delay_between_sends_def emit_def Let_def
      split: if_splits sum.splits post_result.splits prod.splits)

lemma send_loop_counts:
  "send_loop w cols ep dmin dmax n i rs s = (None, s') \<Longrightarrow>
   successful_sends s' + failed_sends s' = successful_sends s + failed_sends s + length rs"
proof (induction rs arbitrary: i s)
  case Nil
  then show ?case by simp
next
  case (Cons r rs)
  obtain e s1 where b: "loop_body w cols ep dmin dmax n i r s = (e, s1)"
    by (cases "loop_body w cols ep dmin dmax n i r s")
  show ?case
  proof (cases e)
    case None
    with b Cons.prems have "send_loop w cols ep dmin dmax n (Suc i) rs s1 = (None, s')"
      by simp
    from Cons.IH [OF this] loop_body_counts [OF b [unfolded None]] show ?thesis by simp
  next
    case (Some a)
    with b Cons.prems show ?thesis by simp
  qed
qed

lemma uniform_bounds:
  assumes "a \<le> b" and "0 \<le> r" and "r < 1"
  shows "a \<le> uniform a b r \<and> uniform a b r \<le> b"
proof -
  have "0 \<le> (b - a) * r" using assms by simp
  moreover have "(b - a) * r \<le> (b - a) * 1"
    using assms by (intro mult_left_mono) simp_all
  ultimately show ?thesis by (simp add: uniform_def)
qed

lemma uniform_nonneg:
  assumes "0 \<le> a" and "0 \<le> b" and "0 \<le> r" and "r < 1"
  shows "0 \<le> uniform a b r"
proof -
  have "uniform a b r = a * (1 - r) + b * r" by (simp add: uniform_def algebra_simps)
  moreover have "0 \<le> a * (1 - r)" using assms by simp
  moreover have "0 \<le> b * r" using assms by simp
  ultimately show ?thesis by simp
qed


lemma since_last_post_append:
  assumes "list_all (\<lambda>ev. \<not> is_post ev) ys"
  shows "since_last_post (xs @ ys) = since_last_post xs @ ys"
proof -
  have "\<And>ev. ev \<in> set (rev ys) \<Longrightarrow> \<not> is_post ev"
    using assms by (simp add: list_all_iff)
  then have "takeWhile (\<lambda>ev. \<not> is_post ev) (rev ys @ rev xs) =
      rev ys @ takeWhile (\<lambda>ev. \<not> is_post ev) (rev xs)"
    by (rule takeWhile_append2) 
  then show ?thesis by (simp add: since_last_post_def)
qed

lemma since_last_post_post: "since_last_post (xs @ [HttpPost req]) = []"
  by (simp add: since_last_post_def)

lemma delay_between_sends_ok:
  assumes "0 \<le> uniform dmin dmax (rand_draw w i)"
  shows "delay_between_sends w dmin dmax n i s =
    (None, if int i < int n - 1
           then s\<lparr>trace := trace s @ [Sleep (uniform dmin dmax (rand_draw w i))]\<rparr>
           else s)"
  using assms by (simp add: delay_between_sends_def emit_def Let_def)

lemma loop_body_good:
  assumes n: "n \<noteq> 0" and p: "create_ticket_payload cols row = Inr p"
    and net: "only_request_exceptions w"
    and d: "0 \<le> uniform dmin dmax (rand_draw w i)"
  shows "\<exists>s'. loop_body w cols ep dmin dmax n i row s = (None, s') \<and>
    posted_payloads (trace s') = posted_payloads (trace s) @ [p] \<and>
    progress_reports (trace s') = progress_reports (trace s) @ [(i + 1, n)] \<and>
    bar_updates (trace s') = bar_updates (trace s) @ [real (i + 1) / real n] \<and>
    sleeps (trace s') = sleeps (trace s) @
      (if int i < int n - 1 then [uniform dmin dmax (rand_draw w i)] else []) \<and>
    (\<not> int i < int n - 1 \<longrightarrow> sleeps (since_last_post (trace s')) = [])"
proof -
  obtain x where x: "dict_get p ''external_id'' = Inr x"
    using payload_external_id [OF p] by auto
  note body = loop_body_built [OF n p x, of w ep dmin dmax i s]
  show ?thesis
  proof (cases "net_reply w i (post_request ep p)")
    case (Responded code t)
    then show ?thesis
      by (simp add: body delay_between_sends_ok [OF d] posted_payloads_append
          progress_reports_append bar_updates_append sleeps_append post_request_def
          since_last_post_def)
  next
    case (RaisedRequestException e)
    then show ?thesis
      by (simp add: body delay_between_sends_ok [OF d] posted_payloads_append
          progress_reports_append bar_updates_append sleeps_append post_request_def
          since_last_post_def)
  next
    case (RaisedOther e)
    with net show ?thesis by (simp add: only_request_exceptions_def)
  qed
qed

lemma send_loop_good:
  assumes cols: "set required_columns \<subseteq> set cols"
    and net: "only_request_exceptions w" and rnd: "unit_draws w"
    and dmin: "0 \<le> dmin" and dmax: "0 \<le> dmax"
  shows "list_all (\<lambda>r. length r = length cols) rs \<Longrightarrow> n = i + length rs \<Longrightarrow>
    \<exists>s'. send_loop w cols ep dmin dmax n i rs s = (None, s') \<and>
      map Inr (posted_payloads (trace s')) =
        map Inr (posted_payloads (trace s)) @ map (create_ticket_payload cols) rs \<and>
      progress_reports (trace s') =
        progress_reports (trace s) @ map (\<lambda>k. (k + 1, n)) [i..<n] \<and>
      bar_updates (trace s') =
        bar_updates (trace s) @ map (\<lambda>k. real (k + 1) / real n) [i..<n] \<and>
      sleeps (trace s') =
        sleeps (trace s) @ map (\<lambda>k. uniform dmin dmax (rand_draw w k)) [i..<n - 1] \<and>
      (rs \<noteq> [] \<longrightarrow> sleeps (since_last_post (trace s')) = [])"
proof (induction rs arbitrary: i s)
  case Nil
  then show ?case by simp
next
  case (Cons r rs)
  from Cons.prems have len: "length r = length cols"
    and rest: "list_all (\<lambda>r. length r = length cols) rs"
    and n: "n = Suc i + length rs" by simp_all
  obtain p where p: "create_ticket_payload cols r = Inr p"
    using create_ticket_payload_total [OF cols len] by auto
  have d: "0 \<le> uniform dmin dmax (rand_draw w i)"
    using rnd dmin dmax by (intro uniform_nonneg) (simp_all add: unit_draws_def)
  have n0: "n \<noteq> 0" using n by simp
  obtain s1 where b: "loop_body w cols ep dmin dmax n i r s = (None, s1)"
    and b_posts: "posted_payloads (trace s1) = posted_payloads (trace s) @ [p]"
    and b_prog: "progress_reports (trace s1) = progress_reports (trace s) @ [(i + 1, n)]"
    and b_bar: "bar_updates (trace s1) = bar_updates (trace s) @ [real (i + 1) / real n]"
    and b_sleeps: "sleeps (trace s1) = sleeps (trace s) @
      (if int i < int n - 1 then [uniform dmin dmax (rand_draw w i)] else [])"
    and b_last: "\<not> int i < int n - 1 \<longrightarrow> sleeps (since_last_post (trace s1)) = []"
    using loop_body_good [OF n0 p net d, of ep s] by blast
  obtain s' where l: "send_loop w cols ep dmin dmax n (Suc i) rs s1 = (None, s')"
    and l_posts: "map Inr (posted_payloads (trace s')) =
        map Inr (posted_payloads (trace s1)) @ map (create_ticket_payload cols) rs"
    and l_prog: "progress_reports (trace s') =
        progress_reports (trace s1) @ map (\<lambda>k. (k + 1, n)) [Suc i..<n]"
    and l_bar: "bar_updates (trace s') =
        bar_updates (trace s1) @ map (\<lambda>k. real (k + 1) / real n) [Suc i..<n]"
    and l_sleeps: "sleeps (trace s') =
        sleeps (trace s1) @ map (\<lambda>k. uniform dmin dmax (rand_draw w k)) [Suc i..<n - 1]"
    and l_last: "rs \<noteq> [] \<longrightarrow> sleeps (since_last_post (trace s')) = []"
    using Cons.IH [OF rest n, of s1] by blast
  have run: "send_loop w cols ep dmin dmax n i (r # rs) s = (None, s')"
    using b l by simp
  have posts: "map Inr (posted_payloads (trace s')) =
      map Inr (posted_payloads (trace s)) @ map (create_ticket_payload cols) (r # rs)"
    using l_posts b_posts p by simp
  have "i < n" using n by simp
  then have "[i..<n] = i # [Suc i..<n]" by (rule upt_conv_Cons)
  then have prog: "progress_reports (trace s') =
      progress_reports (trace s) @ map (\<lambda>k. (k + 1, n)) [i..<n]"
    and bar: "bar_updates (trace s') =
      bar_updates (trace s) @ map (\<lambda>k. real (k + 1) / real n) [i..<n]"
    using l_prog b_prog l_bar b_bar by simp_all
  have sl: "sleeps (trace s') =
      sleeps (trace s) @ map (\<lambda>k. uniform dmin dmax (rand_draw w k)) [i..<n - 1]"
  proof (cases "rs = []")
    case True
    with n have "\<not> int i < int n - 1" and "[i..<n - 1] = []" and "[Suc i..<n - 1] = []"
      by simp_all
    with l_sleeps b_sleeps show ?thesis by simp
  next
    case False
    then have "0 < length rs" by simp
    with n have "int i < int n - 1" and "i < n - 1"
      by simp_all
    moreover from this have "[i..<n - 1] = i # [Suc i..<n - 1]"
      by (intro upt_conv_Cons)
    ultimately show ?thesis using l_sleeps b_sleeps by simp
  qed
  have last: "sleeps (since_last_post (trace s')) = []"
  proof (cases "rs = []")
    case True
    with n have "\<not> int i < int n - 1" by simp
    with b_last have "sleeps (since_last_post (trace s1)) = []" by simp
    moreover from True l have "s' = s1" by simp
    ultimately show ?thesis by simp
  next
    case False
    with l_last show ?thesis by simp
  qed
  from run posts prog bar sl last show ?case by blast
qed

lemma final_summary_counts:
  "successful_sends (final_summary n s) = successful_sends s"
  "failed_sends (final_summary n s) = failed_sends s"
  by (simp_all add: final_summary_def emit_def Let_def)

lemma final_summary_trace:
  "trace (final_summary n s) =
     trace s @ [ProgressBar 1, StatusCompleted, SummaryHeader,
                MetricSuccessful (successful_sends s), MetricFailed (failed_sends s),
                MetricRate (success_rate (successful_sends s) n)] @
     (if successful_sends s = n then [Balloons, AllSent]
      else if failed_sends s > 0 then [CompletedWithErrors (failed_sends s)] else [])"
  by (simp add: final_summary_def emit_def Let_def)

lemma final_summary_projections:
  "posted_payloads (trace (final_summary n s)) = posted_payloads (trace s)"
  "progress_reports (trace (final_summary n s)) = progress_reports (trace s)"
  "bar_updates (trace (final_summary n s)) = bar_updates (trace s) @ [1]"
  "sleeps (trace (final_summary n s)) = sleeps (trace s)"
  "sleeps (since_last_post (trace (final_summary n s))) = sleeps (since_last_post (trace s))"
  by (simp_all add: final_summary_trace posted_payloads_append progress_reports_append
      bar_updates_append sleeps_append since_last_post_append)

lemma valid_run:
  assumes wf: "wf_df df" and v: "fst (validate_csv_structure df)"
    and net: "only_request_exceptions w" and rnd: "unit_draws w"
    and dmin: "0 \<le> dmin" and dmax: "0 \<le> dmax"
  shows "\<exists>s. send_tickets_process w df ep dmin dmax = (None, s) \<and>
      map Inr (posted_payloads (trace s)) =
        map (create_ticket_payload (columns df)) (iterrows (float_str_beyond w) df) \<and>
      progress_reports (trace s) = map (\<lambda>k. (k + 1, length (rows df))) [0..<length (rows df)] \<and>
      bar_updates (trace s) =
        0 # map (\<lambda>k. real (k + 1) / real (length (rows df))) [0..<length (rows df)] @ [1] \<and>
      sleeps (trace s) = map (\<lambda>k. uniform dmin dmax (rand_draw w k)) [0..<length (rows df) - 1] \<and>
      (rows df \<noteq> [] \<longrightarrow> sleeps (since_last_post (trace s)) = [])"
proof -
  let ?s0 = "\<lparr>successful_sends = 0, failed_sends = 0, trace = [ProgressBar 0]\<rparr>"
  have cols: "set required_columns \<subseteq> set (columns df)"
    using v by (simp add: validate_ok_iff)
  have lens: "list_all (\<lambda>r. length r = length (columns df)) (iterrows (float_str_beyond w) df)"
    using wf by (simp add: wf_df_def iterrows_lengths)
  have n: "length (rows df) = 0 + length (iterrows (float_str_beyond w) df)"
    by (simp add: length_iterrows)
  have ne: "(iterrows (float_str_beyond w) df \<noteq> []) = (rows df \<noteq> [])"
    using length_iterrows [of "float_str_beyond w" df] by (metis length_0_conv)
  obtain s' where l: "send_loop w (columns df) ep dmin dmax (length (rows df)) 0
        (iterrows (float_str_beyond w) df) ?s0 = (None, s')"
    and l_posts: "map Inr (posted_payloads (trace s')) =
        map Inr (posted_payloads (trace ?s0)) @
        map (create_ticket_payload (columns df)) (iterrows (float_str_beyond w) df)"
    and l_prog: "progress_reports (trace s') =
        progress_reports (trace ?s0) @ map (\<lambda>k. (k + 1, length (rows df))) [0..<length (rows df)]"
    and l_bar: "bar_updates (trace s') =
        bar_updates (trace ?s0) @
        map (\<lambda>k. real (k + 1) / real (length (rows df))) [0..<length (rows df)]"
    and l_sleeps: "sleeps (trace s') =
        sleeps (trace ?s0) @ map (\<lambda>k. uniform dmin dmax (rand_draw w k)) [0..<length (rows df) - 1]"
    and l_last: "rows df \<noteq> [] \<longrightarrow> sleeps (since_last_post (trace s')) = []"
    using send_loop_good [OF cols net rnd dmin dmax lens n, of ep ?s0] ne
    by auto
  have "send_tickets_process w df ep dmin dmax = (None, final_summary (length (rows df)) s')"
    using l by (simp add: send_tickets_process_def Let_def)
  with l_posts l_prog l_bar l_sleeps l_last show ?thesis
    by (simp add: final_summary_projections)
qed

lemma item_results_append: "item_results (xs @ ys) = item_results xs @ item_results ys"
  by (induction xs rule: item_results.induct) simp_all

lemma send_tickets_process_ended:
  assumes "send_loop w (columns df) ep dmin dmax (length (rows df)) 0
      (iterrows (float_str_beyond w) df)
      \<lparr>successful_sends = 0, failed_sends = 0, trace = [ProgressBar 0]\<rparr> = (None, s)"
  shows "send_tickets_process w df ep dmin dmax = (None, final_summary (length (rows df)) s)"
  using assms by (simp add: send_tickets_process_def Let_def)

lemma send_tickets_process_None:
  assumes "send_tickets_process w df ep dmin dmax = (None, s)"
  shows "\<exists>s1. send_loop w (columns df) ep dmin dmax (length (rows df)) 0
      (iterrows (float_str_beyond w) df)
      \<lparr>successful_sends = 0, failed_sends = 0, trace = [ProgressBar 0]\<rparr> = (None, s1) \<and>
    s = final_summary (length (rows df)) s1"
  using assms
  by (auto simp: send_tickets_process_def Let_def split: prod.splits option.splits)

lemma empty_run:
  assumes "rows df = []"
  shows "send_tickets_process w df ep dmin dmax =
     (None,
      \<lparr>successful_sends = 0, failed_sends = 0,
       trace = [ProgressBar 0, ProgressBar 1, StatusCompleted, SummaryHeader,
                MetricSuccessful 0, MetricFailed 0, MetricRate 0, Balloons, AllSent]\<rparr>)"
  using assms
  by (simp add: send_tickets_process_def iterrows_Nil final_summary_def success_rate_def
      emit_def Let_def)

lemma main_invalid:
  assumes "\<not> fst (validate_csv_structure df)"
  shows "main w (Some (Inr df)) ep button dmin dmax = snd (validate_csv_structure df)"
  using assms by (cases "validate_csv_structure df") (simp add: main_def)

lemma validate_messages:
  "snd (validate_csv_structure df) =
     (if fst (validate_csv_structure df) then []
      else [MissingColumnsError
              (py_join '', '' (filter (\<lambda>c. c \<notin> set (columns df)) required_columns)),
            RequiredColumnsInfo])"
  by (simp add: validate_csv_structure_def Let_def)

subsection \<open>The concrete inputs, evaluated\<close>

lemma demo_payload1_built: "create_ticket_payload demo_columns demo_row1 = Inr demo_payload1"
  by (simp add: create_ticket_payload_def demo_columns_def demo_row1_def demo_payload1_def
      row_get_def)

lemma demo_payload2_built: "create_ticket_payload demo_columns demo_row2 = Inr demo_payload2"
  by (simp add: create_ticket_payload_def demo_columns_def demo_row2_def demo_payload2_def
      row_get_def str_int_def str_nat.simps)

lemma demo_payload3_built: "create_ticket_payload demo_columns demo_row3 = Inr demo_payload3"
  by (simp add: create_ticket_payload_def demo_columns_def demo_row3_def demo_payload3_def
      row_get_def str_int_def str_nat.simps)

lemma demo_wf: "wf_df demo_df"
  by (simp add: wf_df_def demo_df_def demo_columns_def demo_row1_def demo_row2_def
      demo_row3_def)

lemma demo_valid: "fst (validate_csv_structure demo_df)"
  by (simp add: validate_ok_iff required_columns_def demo_df_def demo_columns_def)

lemma demo_net: "only_request_exceptions demo_world"
  by (simp add: only_request_exceptions_def demo_world_def demo_reply_def)

lemma demo_rnd: "unit_draws demo_world"
  by (simp add: unit_draws_def demo_world_def demo_draw_def)

lemma demo_dtypes: "dtypes demo_df = [Object, Object, Object, Object, Object, Object]"
  by (simp add: dtypes_def demo_df_def demo_columns_def demo_row1_def demo_row2_def
      demo_row3_def column_cells_def column_dtype_def in_int64_def in_uint64_def)

lemma demo_iterrows: "iterrows beyond demo_df = [demo_row1, demo_row2, demo_row3]"
proof -
  have "common_dtype (dtypes demo_df) \<noteq> Float64"
    by (simp add: demo_dtypes common_dtype_def)
  then have "iterrows beyond demo_df = rows demo_df" by (rule iterrows_unchanged)
  then show ?thesis by (simp add: demo_df_def)
qed

lemma demo_numeric_dtypes:
  "dtypes demo_df_numeric = [Int64, Int64, Int64, Int64, Float64, Int64]"
  by (simp add: dtypes_def demo_df_numeric_def demo_columns_def column_cells_def
      column_dtype_def in_int64_def in_uint64_def)

lemma demo_numeric_iterrows:
  "iterrows beyond demo_df_numeric =
     [[CFloat ''42.0'', CFloat ''1.0'', CFloat ''2.0'', CFloat ''3.0'', CFloat ''4.5'',
       CFloat ''5.0'']]"
  by (simp add: iterrows_def demo_numeric_dtypes common_dtype_def)
     (simp add: demo_df_numeric_def int_as_float_str_def str_int_def str_nat.simps)

lemma demo_numeric_payload:
  "map (create_ticket_payload (columns demo_df_numeric)) (iterrows beyond demo_df_numeric) =
     [Inr demo_payload_numeric]"
  by (simp add: demo_numeric_iterrows)
     (simp add: demo_df_numeric_def demo_columns_def create_ticket_payload_def row_get_def
       demo_payload_numeric_def)

lemma demo_external_id1: "dict_get demo_payload1 ''external_id'' = Inr (JStr ''T-1'')"
  by (simp add: demo_payload1_def)

lemma demo_external_id2: "dict_get demo_payload2 ''external_id'' = Inr (JStr ''42'')"
  by (simp add: demo_payload2_def)

lemma demo_external_id3: "dict_get demo_payload3 ''external_id'' = Inr (JStr ''-7'')"
  by (simp add: demo_payload3_def)

lemma demo_run:
  "send_tickets_process demo_world demo_df ''http://x'' (1 / 2) (3 / 2) =
     (None,
      \<lparr>successful_sends = 2, failed_sends = 1,
       trace =
         [ProgressBar 0,
          ProgressBar (1 / 3), StatusSending 1 3, PayloadShown (JStr ''T-1'') demo_payload1,
          HttpPost (post_request ''http://x'' demo_payload1),
          TicketSuccess (JStr ''T-1'') 500, Sleep 1,
          ProgressBar (2 / 3), StatusSending 2 3, PayloadShown (JStr ''42'') demo_payload2,
          HttpPost (post_request ''http://x'' demo_payload2),
          TicketSuccess (JStr ''42'') 200, Sleep 1,
          ProgressBar 1, StatusSending 3 3, PayloadShown (JStr ''-7'') demo_payload3,
          HttpPost (post_request ''http://x'' demo_payload3),
          TicketError (JStr ''-7'') ''Connection refused'',
          ProgressBar 1, StatusCompleted, SummaryHeader,
          MetricSuccessful 2, MetricFailed 1, MetricRate (200 / 3),
          CompletedWithErrors 1]\<rparr>)"
proof -
  have n: "(3::nat) \<noteq> 0" by simp
  note b1 = loop_body_built [OF n demo_payload1_built demo_external_id1]
  note b2 = loop_body_built [OF n demo_payload2_built demo_external_id2]
  note b3 = loop_body_built [OF n demo_payload3_built demo_external_id3]
  note world = demo_world_def demo_reply_def demo_draw_def delay_between_sends_def uniform_def
    emit_def
  let ?ep = "''http://x''"
  let ?t1 = "[ProgressBar 0,
          ProgressBar (1 / 3), StatusSending 1 3, PayloadShown (JStr ''T-1'') demo_payload1,
          HttpPost (post_request ?ep demo_payload1),
          TicketSuccess (JStr ''T-1'') 500, Sleep 1]"
  let ?t2 = "?t1 @ [ProgressBar (2 / 3), StatusSending 2 3,
          PayloadShown (JStr ''42'') demo_payload2,
          HttpPost (post_request ?ep demo_payload2),
          TicketSuccess (JStr ''42'') 200, Sleep 1]"
  let ?t3 = "?t2 @ [ProgressBar 1, StatusSending 3 3,
          PayloadShown (JStr ''-7'') demo_payload3,
          HttpPost (post_request ?ep demo_payload3),
          TicketError (JStr ''-7'') ''Connection refused'']"
  have s1: "loop_body demo_world demo_columns ?ep (1 / 2) (3 / 2) 3 0 demo_row1
      \<lparr>successful_sends = 0, failed_sends = 0, trace = [ProgressBar 0]\<rparr> =
      (None, \<lparr>successful_sends = 1, failed_sends = 0, trace = ?t1\<rparr>)"
    by (simp add: b1 world)
  have s2: "loop_body demo_world demo_columns ?ep (1 / 2) (3 / 2) 3 (Suc 0) demo_row2
      \<lparr>successful_sends = 1, failed_sends = 0, trace = ?t1\<rparr> =
      (None, \<lparr>successful_sends = 2, failed_sends = 0, trace = ?t2\<rparr>)"
    by (simp add: b2 world)
  have s3: "loop_body demo_world demo_columns ?ep (1 / 2) (3 / 2) 3 (Suc (Suc 0)) demo_row3
      \<lparr>successful_sends = 2, failed_sends = 0, trace = ?t2\<rparr> =
      (None, \<lparr>successful_sends = 2, failed_sends = 1, trace = ?t3\<rparr>)"
    by (simp add: b3 world)
  have loop: "send_loop demo_world demo_columns ?ep (1 / 2) (3 / 2) 3 0
      [demo_row1, demo_row2, demo_row3]
      \<lparr>successful_sends = 0, failed_sends = 0, trace = [ProgressBar 0]\<rparr> =
      (None, \<lparr>successful_sends = 2, failed_sends = 1, trace = ?t3\<rparr>)"
    using s1 s2 s3 by simp
  have len: "length (rows demo_df) = 3" and cols: "columns demo_df = demo_columns"
    and rs: "rows demo_df = [demo_row1, demo_row2, demo_row3]"
    by (simp_all add: demo_df_def)
  have "send_loop demo_world (columns demo_df) ?ep (1 / 2) (3 / 2) (length (rows demo_df)) 0
      (iterrows (float_str_beyond demo_world) demo_df)
      \<lparr>successful_sends = 0, failed_sends = 0, trace = [ProgressBar 0]\<rparr> =
      (None, \<lparr>successful_sends = 2, failed_sends = 1, trace = ?t3\<rparr>)"
    by (simp only: len) (simp only: cols demo_iterrows loop)
  from send_tickets_process_ended [OF this] show ?thesis
    by (simp add: len final_summary_def success_rate_def emit_def)
qed

lemma demo_run_unparsable:
  "send_tickets_process demo_world_unparsable demo_df ''http://a..b'' (1 / 2) (3 / 2) =
     (Some (OtherException ''LocationParseError''),
      \<lparr>successful_sends = 0, failed_sends = 0,
       trace =
         [ProgressBar 0,
          ProgressBar (1 / 3), StatusSending 1 3, PayloadShown (JStr ''T-1'') demo_payload1,
          HttpPost (post_request ''http://a..b'' demo_payload1)]\<rparr>)"
proof -
  have n: "(3::nat) \<noteq> 0" by simp
  note b1 = loop_body_built [OF n demo_payload1_built demo_external_id1]
  have s1: "loop_body demo_world_unparsable demo_columns ''http://a..b'' (1 / 2) (3 / 2) 3 0
      demo_row1 \<lparr>successful_sends = 0, failed_sends = 0, trace = [ProgressBar 0]\<rparr> =
      (Some (OtherException ''LocationParseError''),
       \<lparr>successful_sends = 0, failed_sends = 0,
        trace =
          [ProgressBar 0,
           ProgressBar (1 / 3), StatusSending 1 3, PayloadShown (JStr ''T-1'') demo_payload1,
           HttpPost (post_request ''http://a..b'' demo_payload1)]\<rparr>)"
    by (simp add: b1 demo_world_unparsable_def demo_reply_unparsable_def)
       (simp add: post_request_def)
  have len: "length (rows demo_df) = 3" and cols: "columns demo_df = demo_columns"
    by (simp_all add: demo_df_def)
  show ?thesis
    unfolding send_tickets_process_def Let_def len cols demo_iterrows
    by (simp add: s1)
qed

section \<open>The claims\<close>

text \<open>
  Claim C1. In the iteration for one record, with payload \<open>p\<close> and external id \<open>x\<close>:
  when the HTTP exchange completes, whatever the status code, the success count goes up
  by one, the failure count stays, and the one per-ticket message is the success message
  with \<open>(x, status code)\<close>; when the transport fails, the failure count goes up by one,
  the success count stays, and the one per-ticket message is the failure message with
  \<open>(x, description)\<close>. Nothing else changes a count, and the status code is never
  looked at.
\<close>

theorem classification_by_transport_only:
  assumes "n \<noteq> 0" and "create_ticket_payload cols row = Inr p"
    and "dict_get p ''external_id'' = Inr x"
    and "s' = snd (loop_body w cols ep dmin dmax n i row s)"
  shows "(\<forall>status_code body. net_reply w i (post_request ep p) = Responded status_code body \<longrightarrow>
            successful_sends s' = successful_sends s + 1 \<and>
            failed_sends s' = failed_sends s \<and>
            item_results (trace s') = item_results (trace s) @ [TicketSuccess x status_code]) \<and>
         (\<forall>msg. net_reply w i (post_request ep p) = RaisedRequestException msg \<longrightarrow>
            failed_sends s' = failed_sends s + 1 \<and>
            successful_sends s' = successful_sends s \<and>
            item_results (trace s') = item_results (trace s) @ [TicketError x msg]) \<and>
         (\<forall>msg. net_reply w i (post_request ep p) = RaisedOther msg \<longrightarrow>
            failed_sends s' = failed_sends s \<and>
            successful_sends s' = successful_sends s \<and>
            item_results (trace s') = item_results (trace s))"
  unfolding assms(4) loop_body_built [OF assms(1-3)]
  by (simp add: delay_between_sends_def emit_def Let_def item_results_append)

theorem classification_by_transport_only_witness:
  "successful_sends (snd (loop_body demo_world demo_columns ''http://x'' (1 / 2) (3 / 2) 3 0
      demo_row1 demo_start)) = 1 \<and>
   failed_sends (snd (loop_body demo_world demo_columns ''http://x'' (1 / 2) (3 / 2) 3 0
      demo_row1 demo_start)) = 0 \<and>
   item_results (trace (snd (loop_body demo_world demo_columns ''http://x'' (1 / 2) (3 / 2) 3 0
      demo_row1 demo_start))) = [TicketSuccess (JStr ''T-1'') 500] \<and>
   failed_sends (snd (loop_body demo_world demo_columns ''http://x'' (1 / 2) (3 / 2) 3 2
      demo_row3 demo_start)) = 1 \<and>
   successful_sends (snd (loop_body demo_world demo_columns ''http://x'' (1 / 2) (3 / 2) 3 2
      demo_row3 demo_start)) = 0 \<and>
   item_results (trace (snd (loop_body demo_world demo_columns ''http://x'' (1 / 2) (3 / 2) 3 2
      demo_row3 demo_start))) = [TicketError (JStr ''-7'') ''Connection refused'']"
proof -
  have n: "(3::nat) \<noteq> 0" by simp
  have first: "net_reply demo_world 0 (post_request ''http://x'' demo_payload1) =
      Responded 500 ''Internal Server Error''"
    by (simp add: demo_world_def demo_reply_def)
  have third: "net_reply demo_world 2 (post_request ''http://x'' demo_payload3) =
      RaisedRequestException ''Connection refused''"
    by (simp add: demo_world_def demo_reply_def)
  from first
    classification_by_transport_only [OF n demo_payload1_built demo_external_id1 refl,
      where w = demo_world and ep = "''http://x''" and dmin = "1 / 2" and dmax = "3 / 2"
        and i = 0 and s = demo_start]
  have a: "successful_sends (snd (loop_body demo_world demo_columns ''http://x'' (1 / 2) (3 / 2) 3 0
      demo_row1 demo_start)) = 1 \<and>
   failed_sends (snd (loop_body demo_world demo_columns ''http://x'' (1 / 2) (3 / 2) 3 0
      demo_row1 demo_start)) = 0 \<and>
   item_results (trace (snd (loop_body demo_world demo_columns ''http://x'' (1 / 2) (3 / 2) 3 0
      demo_row1 demo_start))) = [TicketSuccess (JStr ''T-1'') 500]"
    by (simp add: demo_start_def)
  from third
    classification_by_transport_only [OF n demo_payload3_built demo_external_id3 refl,
      where w = demo_world and ep = "''http://x''" and dmin = "1 / 2" and dmax = "3 / 2"
        and i = 2 and s = demo_start]
  have b: "failed_sends (snd (loop_body demo_world demo_columns ''http://x'' (1 / 2) (3 / 2) 3 2
      demo_row3 demo_start)) = 1 \<and>
   successful_sends (snd (loop_body demo_world demo_columns ''http://x'' (1 / 2) (3 / 2) 3 2
      demo_row3 demo_start)) = 0 \<and>
   item_results (trace (snd (loop_body demo_world demo_columns ''http://x'' (1 / 2) (3 / 2) 3 2
      demo_row3 demo_start))) = [TicketError (JStr ''-7'') ''Connection refused'']"
    by (simp add: demo_start_def)
  from a b show ?thesis by simp
qed

text \<open>
  Claim C2 puts the progress report of an iteration after the per-ticket message. The
  module reports progress at the top of the loop body ("Sending ticket 1 of 3..."),
  before the payload is built and sent. In the run over the three demo tickets the
  report \<open>(1, 3)\<close> comes before the first delivery attempt, which comes before the first
  per-ticket message: the claimed order fails for the first record.
\<close>

theorem progress_precedes_delivery_counterexample:
  "position (StatusSending 1 3)
     (trace (snd (send_tickets_process demo_world demo_df ''http://x'' (1 / 2) (3 / 2))))
   < position (HttpPost (post_request ''http://x'' demo_payload1))
     (trace (snd (send_tickets_process demo_world demo_df ''http://x'' (1 / 2) (3 / 2)))) \<and>
   position (HttpPost (post_request ''http://x'' demo_payload1))
     (trace (snd (send_tickets_process demo_world demo_df ''http://x'' (1 / 2) (3 / 2))))
   < position (TicketSuccess (JStr ''T-1'') 500)
     (trace (snd (send_tickets_process demo_world demo_df ''http://x'' (1 / 2) (3 / 2)))) \<and>
   position (TicketSuccess (JStr ''T-1'') 500)
     (trace (snd (send_tickets_process demo_world demo_df ''http://x'' (1 / 2) (3 / 2))))
   < length (trace (snd (send_tickets_process demo_world demo_df ''http://x'' (1 / 2) (3 / 2))))"
  by (simp add: demo_run position_def)

text \<open>
  Claim C2, amended. The events of the iteration for record \<open>i\<close> are, in this order: the
  progress report (bar at \<open>(i + 1) / N\<close>, status \<open>(i + 1, N)\<close>), the "payload ready"
  display carrying the built payload, the delivery attempt, the per-ticket message for
  the classified result, and, when a pause is due, the pause. So the payload is shown
  before it is sent and the result message follows the attempt, but the progress report
  comes first, not last.
\<close>

theorem iteration_event_order:
  assumes "n \<noteq> 0" and "create_ticket_payload cols row = Inr p"
    and "dict_get p ''external_id'' = Inr x"
    and "pause = (if int i < int n - 1 \<and> 0 \<le> uniform dmin dmax (rand_draw w i)
                  then [Sleep (uniform dmin dmax (rand_draw w i))] else [])"
  shows "trace (snd (loop_body w cols ep dmin dmax n i row s)) =
     trace s @
     [ProgressBar (real (i + 1) / real n), StatusSending (i + 1) n,
      PayloadShown x p, HttpPost (post_request ep p)] @
     (case net_reply w i (post_request ep p) of
        Responded status_code body \<Rightarrow> TicketSuccess x status_code # pause
      | RaisedRequestException msg \<Rightarrow> TicketError x msg # pause
      | RaisedOther msg \<Rightarrow> [])"
  unfolding assms(4) loop_body_built [OF assms(1-3)]
  by (simp add: delay_between_sends_def emit_def Let_def split: post_result.splits)

theorem iteration_event_order_witness:
  "trace (snd (loop_body demo_world demo_columns ''http://x'' (1 / 2) (3 / 2) 3 0
      demo_row1 demo_start)) =
     [ProgressBar 0, ProgressBar (1 / 3), StatusSending 1 3,
      PayloadShown (JStr ''T-1'') demo_payload1,
      HttpPost (post_request ''http://x'' demo_payload1),
      TicketSuccess (JStr ''T-1'') 500, Sleep 1]"
proof -
  have n: "(3::nat) \<noteq> 0" by simp
  from iteration_event_order [OF n demo_payload1_built demo_external_id1 refl,
      where w = demo_world and ep = "''http://x''" and dmin = "1 / 2" and dmax = "3 / 2"
        and i = 0 and s = demo_start]
  show ?thesis
    by (simp add: demo_start_def demo_world_def demo_reply_def demo_draw_def uniform_def)
qed

text \<open>
  Claim C3 says that no failure of the network or transport leaves the Delivery Client as
  an exception. The \<open>except\<close> clause names \<open>requests.exceptions.RequestException\<close> only.
  For the URL \<open>http://a..b\<close> the HTTP call raises an exception outside that hierarchy
  (the URL cannot be parsed); it is not caught, and \<open>send_ticket\<close> raises it to its
  caller instead of returning \<open>(False, 0, description)\<close>.
\<close>

theorem send_ticket_raises_counterexample:
  "send_ticket (demo_reply_unparsable 0) demo_payload1 ''http://a..b'' =
     (Inl (OtherException ''LocationParseError''),
      [HttpPost (post_request ''http://a..b'' demo_payload1)])"
  by (simp add: send_ticket_def demo_reply_unparsable_def Let_def)
     (simp add: post_request_def)

text \<open>
  Claim C3, amended. One delivery attempt makes exactly one HTTP POST. When
  \<open>requests.post\<close> raises an exception of the \<open>RequestException\<close> hierarchy (connection
  refused, timeout, DNS failure, TLS failure), the Delivery Client raises nothing: it
  returns \<open>(False, 0, description of the failure)\<close>. When the exchange completes, with any
  status code, it returns \<open>(True, status code, response text)\<close>. When \<open>requests.post\<close>
  raises an exception of any other class, the Delivery Client does not catch it: the
  exception reaches the caller.
\<close>

theorem send_ticket_outcomes:
  "(reply (post_request endpoint payload) = RaisedRequestException msg \<longrightarrow>
      send_ticket reply payload endpoint =
        (Inr (False, 0, msg), [HttpPost (post_request endpoint payload)])) \<and>
   (reply (post_request endpoint payload) = Responded status_code body \<longrightarrow>
      send_ticket reply payload endpoint =
        (Inr (True, status_code, body), [HttpPost (post_request endpoint payload)])) \<and>
   (reply (post_request endpoint payload) = RaisedOther other \<longrightarrow>
      send_ticket reply payload endpoint =
        (Inl (OtherException other), [HttpPost (post_request endpoint payload)]))"
  by (simp add: send_ticket_def Let_def)

theorem send_ticket_outcomes_witness:
  "send_ticket (demo_reply 2) demo_payload1 ''http://x'' =
     (Inr (False, 0, ''Connection refused''), [HttpPost (post_request ''http://x'' demo_payload1)]) \<and>
   send_ticket (demo_reply 0) demo_payload1 ''http://x'' =
     (Inr (True, 500, ''Internal Server Error''),
      [HttpPost (post_request ''http://x'' demo_payload1)]) \<and>
   send_ticket (demo_reply_unparsable 0) demo_payload2 ''http://a..b'' =
     (Inl (OtherException ''LocationParseError''),
      [HttpPost (post_request ''http://a..b'' demo_payload2)])"
proof -
  have refused: "demo_reply 2 (post_request ''http://x'' demo_payload1) =
      RaisedRequestException ''Connection refused''"
    by (simp add: demo_reply_def)
  have answered: "demo_reply 0 (post_request ''http://x'' demo_payload1) =
      Responded 500 ''Internal Server Error''"
    by (simp add: demo_reply_def)
  have unparsable: "demo_reply_unparsable 0 (post_request ''http://a..b'' demo_payload2) =
      RaisedOther ''LocationParseError''"
    by (simp add: demo_reply_unparsable_def post_request_def)
  from refused answered unparsable
    send_ticket_outcomes [of "demo_reply 2" "''http://x''" demo_payload1 "''Connection refused''"]
    send_ticket_outcomes [of "demo_reply 0" "''http://x''" demo_payload1 _ 500
      "''Internal Server Error''"]
    send_ticket_outcomes [of "demo_reply_unparsable 0" "''http://a..b''" demo_payload2 _ _ _
      "''LocationParseError''"]
  show ?thesis by blast
qed

text \<open>
  Claim C4 says that no delivery failure aborts the run. The three demo tickets form a
  valid dataset. Sent to the URL \<open>http://a..b\<close>, the first delivery raises an exception
  that \<open>send_ticket\<close> does not catch: it leaves the loop, and the run ends with that
  exception after one delivery attempt and one progress report, of three.
\<close>

theorem run_aborted_counterexample:
  "wf_df demo_df \<and> fst (validate_csv_structure demo_df) \<and> length (rows demo_df) = 3 \<and>
   fst (send_tickets_process demo_world_unparsable demo_df ''http://a..b'' (1 / 2) (3 / 2)) =
     Some (OtherException ''LocationParseError'') \<and>
   posted_payloads
     (trace (snd (send_tickets_process demo_world_unparsable demo_df ''http://a..b'' (1 / 2) (3 / 2))))
     = [demo_payload1] \<and>
   progress_reports
     (trace (snd (send_tickets_process demo_world_unparsable demo_df ''http://a..b'' (1 / 2) (3 / 2))))
     = [(1, 3)]"
  by (simp add: demo_wf demo_valid demo_run_unparsable) (simp add: demo_df_def post_request_def)

text \<open>
  Claim C4, amended. For a valid dataset of \<open>N\<close> records (a well-formed frame that passes the
  validator), non-negative delays, and a network where every delivery either completes
  or fails with an exception of the \<open>RequestException\<close> hierarchy: the run ends without an
  exception, makes exactly \<open>N\<close> delivery attempts, the payloads of the rows as
  \<open>df.iterrows()\<close> yields them, in row order, and makes exactly \<open>N\<close> progress reports
  \<open>(1, N), (2, N), ..., (N, N)\<close>, however many of the deliveries fail in that way. With
  each report the bar is set to \<open>(i + 1) / N\<close>; besides, the bar is drawn at 0 before the
  loop and set to 1 with the final summary.
\<close>

theorem all_records_attempted_in_order:
  assumes "wf_df df" and "fst (validate_csv_structure df)"
    and "only_request_exceptions w" and "unit_draws w"
    and "0 \<le> dmin" and "0 \<le> dmax"
    and "r = send_tickets_process w df ep dmin dmax"
  shows "fst r = None \<and>
     length (posted_payloads (trace (snd r))) = length (rows df) \<and>
     map Inr (posted_payloads (trace (snd r))) =
       map (create_ticket_payload (columns df)) (iterrows (float_str_beyond w) df) \<and>
     progress_reports (trace (snd r)) =
       map (\<lambda>k. (k + 1, length (rows df))) [0..<length (rows df)] \<and>
     bar_updates (trace (snd r)) =
       0 # map (\<lambda>k. real (k + 1) / real (length (rows df))) [0..<length (rows df)] @ [1]"
proof -
  obtain s where run: "send_tickets_process w df ep dmin dmax = (None, s)"
    and posts: "map Inr (posted_payloads (trace s)) =
      map (create_ticket_payload (columns df)) (iterrows (float_str_beyond w) df)"
    and prog: "progress_reports (trace s) =
      map (\<lambda>k. (k + 1, length (rows df))) [0..<length (rows df)]"
    and bar: "bar_updates (trace s) =
      0 # map (\<lambda>k. real (k + 1) / real (length (rows df))) [0..<length (rows df)] @ [1]"
    using valid_run [OF assms(1-6), of ep] by blast
  from posts have "length (map Inr (posted_payloads (trace s)) :: (py_error + json) list) =
      length (map (create_ticket_payload (columns df)) (iterrows (float_str_beyond w) df))"
    by simp
  then have "length (posted_payloads (trace s)) = length (rows df)"
    by (simp add: length_iterrows)
  with run posts prog bar show ?thesis by (simp add: assms(7))
qed

theorem all_records_attempted_in_order_witness:
  "fst (send_tickets_process demo_world demo_df ''http://x'' (1 / 2) (3 / 2)) = None \<and>
   posted_payloads (trace (snd (send_tickets_process demo_world demo_df ''http://x'' (1 / 2) (3 / 2))))
     = [demo_payload1, demo_payload2, demo_payload3] \<and>
   progress_reports (trace (snd (send_tickets_process demo_world demo_df ''http://x'' (1 / 2) (3 / 2))))
     = [(1, 3), (2, 3), (3, 3)] \<and>
   bar_updates (trace (snd (send_tickets_process demo_world demo_df ''http://x'' (1 / 2) (3 / 2))))
     = [0, 1 / 3, 2 / 3, 1, 1]"
proof -
  have lo: "(0::real) \<le> 1 / 2" and hi: "(0::real) \<le> 3 / 2" by simp_all
  have rows3: "[0..<3] = [0, 1, 2]" by (simp add: upt_rec)
  have len: "length (rows demo_df) = 3" and cols: "columns demo_df = demo_columns"
    by (simp_all add: demo_df_def)
  from all_records_attempted_in_order [OF demo_wf demo_valid demo_net demo_rnd lo hi refl,
      of "''http://x''"]
  have "fst (send_tickets_process demo_world demo_df ''http://x'' (1 / 2) (3 / 2)) = None"
    and "map Inr (posted_payloads
        (trace (snd (send_tickets_process demo_world demo_df ''http://x'' (1 / 2) (3 / 2))))) =
      [Inr demo_payload1, Inr demo_payload2, Inr demo_payload3 :: py_error + json]"
    and "progress_reports
        (trace (snd (send_tickets_process demo_world demo_df ''http://x'' (1 / 2) (3 / 2)))) =
      [(1, 3), (2, 3), (3, 3)]"
    and "bar_updates
        (trace (snd (send_tickets_process demo_world demo_df ''http://x'' (1 / 2) (3 / 2)))) =
      [0, 1 / 3, 2 / 3, 1, 1]"
    by (simp_all add: len cols demo_iterrows demo_payload1_built demo_payload2_built
        demo_payload3_built rows3)
  then show ?thesis by (auto simp: map_eq_Cons_conv)
qed

text \<open>
  Claim C5. Every run that reaches its end has \<open>successful_sends + failed_sends\<close> equal
  to the number of records, and these two counts are the ones the summary shows. Under
  the standing assumptions of C4 the run does reach its end.
\<close>

theorem counts_sum_to_total:
  assumes "r = send_tickets_process w df ep dmin dmax"
  shows "(fst r = None \<longrightarrow>
            successful_sends (snd r) + failed_sends (snd r) = length (rows df) \<and>
            MetricSuccessful (successful_sends (snd r)) \<in> set (trace (snd r)) \<and>
            MetricFailed (failed_sends (snd r)) \<in> set (trace (snd r))) \<and>
         (wf_df df \<and> fst (validate_csv_structure df) \<and> only_request_exceptions w \<and>
          unit_draws w \<and> 0 \<le> dmin \<and> 0 \<le> dmax \<longrightarrow> fst r = None)"
proof (intro conjI impI)
  assume "fst r = None"
  then have "send_tickets_process w df ep dmin dmax = (None, snd r)"
    using assms by (metis prod.collapse)
  then obtain s1 where l: "send_loop w (columns df) ep dmin dmax (length (rows df)) 0
      (iterrows (float_str_beyond w) df)
      \<lparr>successful_sends = 0, failed_sends = 0, trace = [ProgressBar 0]\<rparr> = (None, s1)"
    and s: "snd r = final_summary (length (rows df)) s1"
    using send_tickets_process_None by blast
  from send_loop_counts [OF l]
  show "successful_sends (snd r) + failed_sends (snd r) = length (rows df)"
    by (simp add: s final_summary_counts length_iterrows)
  show "MetricSuccessful (successful_sends (snd r)) \<in> set (trace (snd r))"
    by (simp add: s final_summary_counts final_summary_trace)
  show "MetricFailed (failed_sends (snd r)) \<in> set (trace (snd r))"
    by (simp add: s final_summary_counts final_summary_trace)
next
  assume "wf_df df \<and> fst (validate_csv_structure df) \<and> only_request_exceptions w \<and>
          unit_draws w \<and> 0 \<le> dmin \<and> 0 \<le> dmax"
  then show "fst r = None"
    using valid_run [of df w dmin dmax ep] assms by auto
qed

theorem counts_sum_to_total_witness:
  "fst (send_tickets_process demo_world demo_df ''http://x'' (1 / 2) (3 / 2)) = None \<and>
   successful_sends (snd (send_tickets_process demo_world demo_df ''http://x'' (1 / 2) (3 / 2))) = 2 \<and>
   failed_sends (snd (send_tickets_process demo_world demo_df ''http://x'' (1 / 2) (3 / 2))) = 1 \<and>
   successful_sends (snd (send_tickets_process demo_world demo_df ''http://x'' (1 / 2) (3 / 2))) +
   failed_sends (snd (send_tickets_process demo_world demo_df ''http://x'' (1 / 2) (3 / 2)))
     = length (rows demo_df)"
proof -
  have lo: "(0::real) \<le> 1 / 2" and hi: "(0::real) \<le> 3 / 2" by simp_all
  note t = counts_sum_to_total [OF refl, of demo_world demo_df "''http://x''" "1 / 2" "3 / 2"]
  have ended: "fst (send_tickets_process demo_world demo_df ''http://x'' (1 / 2) (3 / 2)) = None"
    using t demo_wf demo_valid demo_net demo_rnd lo hi by blast
  have "successful_sends (snd (send_tickets_process demo_world demo_df ''http://x'' (1 / 2) (3 / 2))) +
      failed_sends (snd (send_tickets_process demo_world demo_df ''http://x'' (1 / 2) (3 / 2)))
      = length (rows demo_df)"
    using t ended by blast
  with ended show ?thesis by (simp add: demo_run)
qed

text \<open>
  Claim C6. For an empty dataset the run raises nothing (in particular no
  \<open>ZeroDivisionError\<close>), the loop body is never run (the trace holds no progress report,
  payload display, delivery attempt or pause), both counts are shown as 0, and the success
  rate is 0.
\<close>

theorem empty_dataset_summary:
  assumes "rows df = []"
  shows "send_tickets_process w df ep dmin dmax =
     (None,
      \<lparr>successful_sends = 0, failed_sends = 0,
       trace = [ProgressBar 0, ProgressBar 1, StatusCompleted, SummaryHeader,
                MetricSuccessful 0, MetricFailed 0,
                MetricRate (success_rate 0 (length (rows df))), Balloons, AllSent]\<rparr>) \<and>
     success_rate 0 (length (rows df)) = 0"
  using assms by (simp add: empty_run success_rate_def)

theorem empty_dataset_summary_witness:
  "rows demo_df_empty = [] \<and>
   send_tickets_process demo_world demo_df_empty ''http://x'' (1 / 2) (3 / 2) =
     (None,
      \<lparr>successful_sends = 0, failed_sends = 0,
       trace = [ProgressBar 0, ProgressBar 1, StatusCompleted, SummaryHeader,
                MetricSuccessful 0, MetricFailed 0, MetricRate 0, Balloons, AllSent]\<rparr>)"
proof -
  have e: "rows demo_df_empty = []" by (simp add: demo_df_empty_def)
  from empty_dataset_summary [OF e, of demo_world "''http://x''" "1 / 2" "3 / 2"] e
  show ?thesis by simp
qed

text \<open>
  Claim C7. For a valid dataset of \<open>N > 0\<close> records, \<open>0 \<le> delay_min \<le> delay_max\<close>, draws
  of \<open>[0, 1)\<close> and a network whose failures are \<open>RequestException\<close>s, the run makes exactly
  \<open>N - 1\<close> pauses, each of a duration in \<open>[delay_min, delay_max]\<close>, and none after the
  last delivery attempt.
\<close>

theorem inter_record_delays:
  assumes "wf_df df" and "fst (validate_csv_structure df)"
    and "only_request_exceptions w" and "unit_draws w"
    and "0 \<le> dmin" and "dmin \<le> dmax" and "rows df \<noteq> []"
    and "r = send_tickets_process w df ep dmin dmax"
  shows "fst r = None \<and>
     length (sleeps (trace (snd r))) = length (rows df) - 1 \<and>
     list_all (\<lambda>d. dmin \<le> d \<and> d \<le> dmax) (sleeps (trace (snd r))) \<and>
     sleeps (since_last_post (trace (snd r))) = []"
proof -
  have dmax: "0 \<le> dmax" using assms(5,6) by simp
  obtain s where run: "send_tickets_process w df ep dmin dmax = (None, s)"
    and sl: "sleeps (trace s) =
      map (\<lambda>k. uniform dmin dmax (rand_draw w k)) [0..<length (rows df) - 1]"
    and last: "sleeps (since_last_post (trace s)) = []"
    using valid_run [OF assms(1-5) dmax, of ep] assms(7) by blast
  have "\<And>k. dmin \<le> uniform dmin dmax (rand_draw w k) \<and> uniform dmin dmax (rand_draw w k) \<le> dmax"
    using assms(4,6) by (intro uniform_bounds) (simp_all add: unit_draws_def)
  then have "list_all (\<lambda>d. dmin \<le> d \<and> d \<le> dmax) (sleeps (trace s))"
    by (simp add: sl list_all_iff)
  with run sl last show ?thesis by (simp add: assms(8))
qed

theorem inter_record_delays_witness:
  "fst (send_tickets_process demo_world demo_df ''http://x'' (1 / 2) (3 / 2)) = None \<and>
   sleeps (trace (snd (send_tickets_process demo_world demo_df ''http://x'' (1 / 2) (3 / 2))))
     = [1, 1] \<and>
   length (sleeps (trace (snd (send_tickets_process demo_world demo_df ''http://x'' (1 / 2) (3 / 2)))))
     = length (rows demo_df) - 1 \<and>
   list_all (\<lambda>d. 1 / 2 \<le> d \<and> d \<le> 3 / 2)
     (sleeps (trace (snd (send_tickets_process demo_world demo_df ''http://x'' (1 / 2) (3 / 2))))) \<and>
   sleeps (since_last_post
     (trace (snd (send_tickets_process demo_world demo_df ''http://x'' (1 / 2) (3 / 2))))) = []"
proof -
  have lo: "(0::real) \<le> 1 / 2" and le: "(1 / 2 :: real) \<le> 3 / 2" by simp_all
  have ne: "rows demo_df \<noteq> []" by (simp add: demo_df_def)
  from inter_record_delays [OF demo_wf demo_valid demo_net demo_rnd lo le ne refl,
      of "''http://x''"]
  show ?thesis by (simp add: demo_run)
qed

text \<open>
  Claim C8. Validation fails exactly when one of the six required names is not among the
  frame's column labels. When it fails, the message lists the missing names in the order
  of the required list, joined by \<open>', '\<close>, and the page shows nothing but the validator's
  two messages: no delivery attempt is made. The rows of the frame play no part in the
  result.
\<close>

theorem validation_iff_missing:
  assumes "missing = filter (\<lambda>c. c \<notin> set (columns df))
      [''id'', ''channel'', ''customer_name'', ''subject'', ''fullMessage'', ''sentiment_name'']"
  shows "(\<not> fst (validate_csv_structure df) \<longleftrightarrow>
            (\<exists>c \<in> {''id'', ''channel'', ''customer_name'', ''subject'', ''fullMessage'',
                    ''sentiment_name''}. c \<notin> set (columns df))) \<and>
         (\<not> fst (validate_csv_structure df) \<longrightarrow>
            snd (validate_csv_structure df) =
              [MissingColumnsError (py_join '', '' missing), RequiredColumnsInfo] \<and>
            main w (Some (Inr df)) ep button dmin dmax = snd (validate_csv_structure df) \<and>
            posted_payloads (main w (Some (Inr df)) ep button dmin dmax) = []) \<and>
         validate_csv_structure (df\<lparr>rows := rs\<rparr>) = validate_csv_structure df"
proof (intro conjI impI)
  show "(\<not> fst (validate_csv_structure df)) =
      (\<exists>c \<in> {''id'', ''channel'', ''customer_name'', ''subject'', ''fullMessage'',
              ''sentiment_name''}. c \<notin> set (columns df))"
    unfolding validate_ok_iff required_columns_def by auto
  show "validate_csv_structure (df\<lparr>rows := rs\<rparr>) = validate_csv_structure df"
    by (simp add: validate_csv_structure_def)
next
  assume bad: "\<not> fst (validate_csv_structure df)"
  then show msgs: "snd (validate_csv_structure df) =
      [MissingColumnsError (py_join '', '' missing), RequiredColumnsInfo]"
    by (simp add: validate_messages assms required_columns_def)
  show "main w (Some (Inr df)) ep button dmin dmax = snd (validate_csv_structure df)"
    using bad by (rule main_invalid)
  then show "posted_payloads (main w (Some (Inr df)) ep button dmin dmax) = []"
    by (simp add: msgs)
qed

theorem validation_iff_missing_witness:
  "\<not> fst (validate_csv_structure demo_df_no_subject) \<and>
   main demo_world (Some (Inr demo_df_no_subject)) ''http://x'' True (1 / 2) (3 / 2) =
     [MissingColumnsError ''subject'', RequiredColumnsInfo] \<and>
   posted_payloads
     (main demo_world (Some (Inr demo_df_no_subject)) ''http://x'' True (1 / 2) (3 / 2)) = [] \<and>
   fst (validate_csv_structure demo_df)"
proof -
  have cols: "columns demo_df_no_subject =
      [''id'', ''channel'', ''customer_name'', ''fullMessage'', ''sentiment_name'']"
    by (simp add: demo_df_no_subject_def)
  have cols_ok: "columns demo_df =
      [''id'', ''channel'', ''customer_name'', ''subject'', ''fullMessage'', ''sentiment_name'']"
    by (simp add: demo_df_def demo_columns_def)
  from validation_iff_missing [OF refl, of demo_df_no_subject demo_world "''http://x''" True
      "1 / 2" "3 / 2" "[]"]
  have bad: "\<not> fst (validate_csv_structure demo_df_no_subject)"
    and "main demo_world (Some (Inr demo_df_no_subject)) ''http://x'' True (1 / 2) (3 / 2) =
     [MissingColumnsError ''subject'', RequiredColumnsInfo]"
    and "posted_payloads
     (main demo_world (Some (Inr demo_df_no_subject)) ''http://x'' True (1 / 2) (3 / 2)) = []"
    by (simp_all add: cols)
  moreover from validation_iff_missing [OF refl, of demo_df demo_world "''http://x''" True
      "1 / 2" "3 / 2" "[]"]
  have "fst (validate_csv_structure demo_df)"
    by (simp add: cols_ok)
  ultimately show ?thesis by simp
qed

text \<open>
  Claim C9. For a row of a frame that has the six required columns, the payload is built
  and has the fixed shape of five keys, three of them one-level objects; reading the six
  fields back along their paths gives \<open>str\<close> of the row's six cells, and \<open>str\<close> of a text
  cell is the text itself, byte for byte.
\<close>

theorem payload_round_trip:
  assumes "set required_columns \<subseteq> set cols" and "length row = length cols"
  shows "\<exists>p v_id v_channel v_customer v_subject v_message v_sentiment.
     create_ticket_payload cols row = Inr p \<and>
     row_get cols row ''id'' = Inr v_id \<and>
     row_get cols row ''channel'' = Inr v_channel \<and>
     row_get cols row ''customer_name'' = Inr v_customer \<and>
     row_get cols row ''subject'' = Inr v_subject \<and>
     row_get cols row ''fullMessage'' = Inr v_message \<and>
     row_get cols row ''sentiment_name'' = Inr v_sentiment \<and>
     dict_path p [''external_id''] = Inr (JStr (py_str v_id)) \<and>
     dict_path p [''source_channel''] = Inr (JStr (py_str v_channel)) \<and>
     dict_path p [''customer'', ''name''] = Inr (JStr (py_str v_customer)) \<and>
     dict_path p [''content'', ''subject''] = Inr (JStr (py_str v_subject)) \<and>
     dict_path p [''content'', ''body''] = Inr (JStr (py_str v_message)) \<and>
     dict_path p [''ai_analysis'', ''sentiment''] = Inr (JStr (py_str v_sentiment)) \<and>
     (\<forall>s. py_str (CStr s) = s) \<and>
     p = JObj [(''external_id'', JStr (py_str v_id)),
               (''source_channel'', JStr (py_str v_channel)),
               (''customer'', JObj [(''name'', JStr (py_str v_customer))]),
               (''content'', JObj [(''subject'', JStr (py_str v_subject)),
                                   (''body'', JStr (py_str v_message))]),
               (''ai_analysis'', JObj [(''sentiment'', JStr (py_str v_sentiment))])]"
proof -
  obtain p where p: "create_ticket_payload cols row = Inr p"
    using create_ticket_payload_total [OF assms] by blast
  from create_ticket_payload_Inr [OF p] p show ?thesis
    by (elim exE conjE) (simp (no_asm_simp))
qed

theorem payload_round_trip_witness:
  "create_ticket_payload demo_columns demo_row2 = Inr demo_payload2 \<and>
   dict_path demo_payload2 [''external_id''] = Inr (JStr ''42'') \<and>
   dict_path demo_payload2 [''customer'', ''name''] =
     Inr (JStr [CHR ''J'', CHR ''o'', CHR ''s'', CHR 0xC3, CHR 0xA9]) \<and>
   dict_path demo_payload2 [''content'', ''subject''] = Inr (JStr ''nan'') \<and>
   dict_path demo_payload2 [''content'', ''body''] = Inr (JStr ''Thanks'')"
proof -
  have cols: "set required_columns \<subseteq> set demo_columns"
    by (simp add: required_columns_def demo_columns_def)
  have len: "length demo_row2 = length demo_columns"
    by (simp add: demo_row2_def demo_columns_def)
  from payload_round_trip [OF cols len]
  obtain p v_id v_customer v_subject v_message where
    "create_ticket_payload demo_columns demo_row2 = Inr p"
    "row_get demo_columns demo_row2 ''id'' = Inr v_id"
    "row_get demo_columns demo_row2 ''customer_name'' = Inr v_customer"
    "row_get demo_columns demo_row2 ''subject'' = Inr v_subject"
    "row_get demo_columns demo_row2 ''fullMessage'' = Inr v_message"
    "dict_path p [''external_id''] = Inr (JStr (py_str v_id))"
    "dict_path p [''customer'', ''name''] = Inr (JStr (py_str v_customer))"
    "dict_path p [''content'', ''subject''] = Inr (JStr (py_str v_subject))"
    "dict_path p [''content'', ''body''] = Inr (JStr (py_str v_message))"
    by blast
  then show ?thesis
    by (simp add: demo_payload2_built)
       (auto simp: row_get_def demo_columns_def demo_row2_def str_int_def str_nat.simps)
qed

text \<open>
  Claim C10. For an empty dataset the run ends with the all-successful branch of the
  closing message: \<open>successful_sends\<close> equals \<open>total_tickets\<close> (both 0), the trace ends
  with the balloons and the "all tickets were sent successfully" message, and the
  warning of the other branch is not shown.
\<close>

theorem empty_dataset_all_successful:
  assumes "rows df = []" and "r = send_tickets_process w df ep dmin dmax"
  shows "fst r = None \<and>
     successful_sends (snd r) = length (rows df) \<and>
     drop (length (trace (snd r)) - 2) (trace (snd r)) = [Balloons, AllSent] \<and>
     (\<forall>k. CompletedWithErrors k \<notin> set (trace (snd r)))"
  using assms by (simp add: empty_run)

theorem empty_dataset_all_successful_witness:
  "fst (send_tickets_process demo_world demo_df_empty ''http://x'' (1 / 2) (3 / 2)) = None \<and>
   successful_sends (snd (send_tickets_process demo_world demo_df_empty ''http://x'' (1 / 2) (3 / 2)))
     = 0 \<and>
   drop (length (trace (snd (send_tickets_process demo_world demo_df_empty ''http://x'' (1 / 2) (3 / 2)))) - 2)
     (trace (snd (send_tickets_process demo_world demo_df_empty ''http://x'' (1 / 2) (3 / 2))))
     = [Balloons, AllSent]"
proof -
  have e: "rows demo_df_empty = []" by (simp add: demo_df_empty_def)
  from empty_dataset_all_successful [OF e refl, of demo_world "''http://x''" "1 / 2" "3 / 2"] e
  show ?thesis by simp
qed

end
